theory Spec2Isabelle
  imports Complex_Main "HOL-Library.Monad_Syntax"
begin

section \<open>Linear algebra of the solver\<close>

text \<open>
  Modelled from the spec: the types \<open>Matrix\<close> and \<open>Vector\<close> and their operators are
  declared in \<open>NonlinSolver.h\<close>, which is not part of the sources at hand. The spec fixes
  what matters here: M and K are n-by-n, b and x have length n, and an operation on
  operands whose dimensions do not match fails fast and is fatal.

  A vector is the list of its entries, a matrix the list of its rows; \<open>is_matrix r c A\<close>
  says that A has r rows of c entries each. Scalars (the source's \<open>double\<close>) are the
  reals: the arithmetic is exact. An operation whose operands do not fit returns
  \<open>None\<close>, which stands for the fatal size failure; it propagates through every
  expression that contains it. A list of rows cannot tell how wide a matrix without
  rows is, so such a matrix fits every vector.
\<close>

type_synonym Vector = "real list"
type_synonym Matrix = "real list list"

definition is_matrix :: "nat \<Rightarrow> nat \<Rightarrow> Matrix \<Rightarrow> bool" where
  "is_matrix r c A = (length A = r \<and> list_all (\<lambda>row. length row = c) A)"

text \<open>\<open>M * s\<close>: every entry times the scalar, the scalar on the right.\<close>

definition mat_scale :: "Matrix \<Rightarrow> real \<Rightarrow> Matrix" where
  "mat_scale A s = map (map (\<lambda>a. a * s)) A"

text \<open>\<open>s * v\<close>: every entry times the scalar, the scalar on the left.\<close>

definition vec_scale :: "real \<Rightarrow> Vector \<Rightarrow> Vector" where
  "vec_scale s v = map (\<lambda>a. s * a) v"

definition vec_add :: "Vector \<Rightarrow> Vector \<Rightarrow> Vector option" where
  "vec_add u v = (if length u = length v then Some (map2 (+) u v) else None)"

definition vec_sub :: "Vector \<Rightarrow> Vector \<Rightarrow> Vector option" where
  "vec_sub u v = (if length u = length v then Some (map2 (-) u v) else None)"

definition mat_add :: "Matrix \<Rightarrow> Matrix \<Rightarrow> Matrix option" where
  "mat_add A B =
     (if list_all2 (\<lambda>r s. length r = length s) A B
      then Some (map2 (map2 (+)) A B) else None)"

definition dot :: "Vector \<Rightarrow> Vector \<Rightarrow> real" where
  "dot r v = sum_list (map2 (*) r v)"

definition mat_vec :: "Matrix \<Rightarrow> Vector \<Rightarrow> Vector option" where
  "mat_vec A v =
     (if list_all (\<lambda>row. length row = length v) A
      then Some (map (\<lambda>row. dot row v) A) else None)"

section \<open>The collaborators\<close>

text \<open>
  Modelled from the spec: the interface \<open>ITimeDiscretization\<close> and its subclass
  \<open>ForwardEuler\<close> are declared in \<open>TimeDiscretization.h\<close>, which is not part of the
  sources at hand. An object of the interface is the record of what its member
  functions answer; every member is a parameter. The members are the ones the
  translators and adapters call: the current time, the weight \<open>\<alpha>\<close> of the new state,
  the evaluation point \<open>x_curr\<close>, the weighted old state, \<open>d(dx/dt)/dx\<close>, the linearity
  flag, the Jacobian adjustment (it rewrites the matrix it is given), and the two
  functions \<open>getA\<close> and \<open>getRhs\<close> that the Picard adapter calls on the strategy
  (named \<open>timeDisc_getA\<close> and \<open>timeDisc_getRhs\<close> here, apart from the translator's).
  As in the spec, these two map the matrices they are given to a result and do not
  write to them; like the translator's they may fail on operands that do not fit.
  \<open>ForwardEuler\<close> extends the interface by \<open>getXOld\<close>.
\<close>

record ITimeDiscretization =
  getCurrentTime :: real
  getCurrentXWeight :: real
  getCurrentX :: "Vector \<Rightarrow> Vector"
  getWeightedOldX :: Vector
  getDxDx :: real
  isLinearTimeDisc :: bool
  adjustMatrix :: "Matrix \<Rightarrow> Matrix"
  timeDisc_getA :: "Matrix \<Rightarrow> Matrix \<Rightarrow> Matrix option"
  timeDisc_getRhs :: "Matrix \<Rightarrow> Matrix \<Rightarrow> Vector \<Rightarrow> Vector option"

record ForwardEuler = ITimeDiscretization +
  getXOld :: Vector

text \<open>
  Modelled from the spec: the Equation \<open>IFirstOrderImplicitOde\<close> is declared in a header
  that is not part of the sources at hand. \<open>assemble\<close> receives M, K and b by reference
  and returns them rewritten; \<open>assembleJacobian\<close> does the same with Jac.
\<close>

record IFirstOrderImplicitOde =
  getMatrixSize :: nat
  isLinear :: bool
  assemble :: "real \<Rightarrow> Vector \<Rightarrow> Matrix \<Rightarrow> Matrix \<Rightarrow> Vector \<Rightarrow> Matrix \<times> Matrix \<times> Vector"
  assembleJacobian :: "real \<Rightarrow> Vector \<Rightarrow> real \<Rightarrow> real \<Rightarrow> Matrix \<Rightarrow> Matrix"

section \<open>The matrix translators\<close>

text \<open>
  The abstract class \<open>MatrixTranslator<IParabolicEquation>\<close>: four virtual member
  functions. An object is the record of its four functions.
\<close>

record MatrixTranslator =
  getA :: "Matrix \<Rightarrow> Matrix \<Rightarrow> Matrix option"
  getRhs :: "Matrix \<Rightarrow> Matrix \<Rightarrow> Vector \<Rightarrow> Vector option"
  getResidual :: "Matrix \<Rightarrow> Matrix \<Rightarrow> Vector \<Rightarrow> Vector \<Rightarrow> Vector option"
  getJacobian :: "Matrix \<Rightarrow> Matrix"

subsection \<open>\<open>MatrixTranslatorGeneral\<close>\<close>

definition MatrixTranslatorGeneral_getA ::
  "'a ITimeDiscretization_scheme \<Rightarrow> Matrix \<Rightarrow> Matrix \<Rightarrow> Matrix option" where
  "MatrixTranslatorGeneral_getA time_disc M K =
     (let dxdot_dx = getCurrentXWeight time_disc
      in mat_add (mat_scale M dxdot_dx) K)"

definition MatrixTranslatorGeneral_getRhs ::
  "'a ITimeDiscretization_scheme \<Rightarrow> Matrix \<Rightarrow> Matrix \<Rightarrow> Vector \<Rightarrow> Vector option" where
  "MatrixTranslatorGeneral_getRhs time_disc M K b =
     (let weighted_old_x = getWeightedOldX time_disc
      in do { Mw \<leftarrow> mat_vec M weighted_old_x; vec_add b Mw })"

definition MatrixTranslatorGeneral_getResidual ::
  "'a ITimeDiscretization_scheme \<Rightarrow> Matrix \<Rightarrow> Matrix \<Rightarrow> Vector \<Rightarrow> Vector \<Rightarrow> Vector option" where
  "MatrixTranslatorGeneral_getResidual time_disc M K b x_new_timestep =
     (let alpha = getCurrentXWeight time_disc;
          x_curr = getCurrentX time_disc x_new_timestep;
          x_old = getWeightedOldX time_disc
      in do {
        x_dot \<leftarrow> vec_sub (vec_scale alpha x_new_timestep) x_old;
        Mxdot \<leftarrow> mat_vec M x_dot;
        Kx \<leftarrow> mat_vec K x_curr;
        s \<leftarrow> vec_add Mxdot Kx;
        vec_sub s b
      })"

definition MatrixTranslatorGeneral_getJacobian :: "Matrix \<Rightarrow> Matrix" where
  "MatrixTranslatorGeneral_getJacobian Jac = Jac"

definition MatrixTranslatorGeneral :: "'a ITimeDiscretization_scheme \<Rightarrow> MatrixTranslator" where
  "MatrixTranslatorGeneral timeDisc =
     \<lparr> getA = MatrixTranslatorGeneral_getA timeDisc,
       getRhs = MatrixTranslatorGeneral_getRhs timeDisc,
       getResidual = MatrixTranslatorGeneral_getResidual timeDisc,
       getJacobian = MatrixTranslatorGeneral_getJacobian \<rparr>"

subsection \<open>\<open>MatrixTranslatorForwardEuler\<close>\<close>

definition MatrixTranslatorForwardEuler_getA ::
  "ForwardEuler \<Rightarrow> Matrix \<Rightarrow> Matrix \<Rightarrow> Matrix option" where
  "MatrixTranslatorForwardEuler_getA fwd_euler M K =
     (let dxdot_dx = getCurrentXWeight fwd_euler
      in Some (mat_scale M dxdot_dx))"

definition MatrixTranslatorForwardEuler_getRhs ::
  "ForwardEuler \<Rightarrow> Matrix \<Rightarrow> Matrix \<Rightarrow> Vector \<Rightarrow> Vector option" where
  "MatrixTranslatorForwardEuler_getRhs fwd_euler M K b =
     (let weighted_old_x = getWeightedOldX fwd_euler;
          x_old = getXOld fwd_euler
      in do {
        Mw \<leftarrow> mat_vec M weighted_old_x;
        s \<leftarrow> vec_add b Mw;
        Kx \<leftarrow> mat_vec K x_old;
        vec_sub s Kx
      })"

definition MatrixTranslatorForwardEuler_getResidual ::
  "ForwardEuler \<Rightarrow> Matrix \<Rightarrow> Matrix \<Rightarrow> Vector \<Rightarrow> Vector \<Rightarrow> Vector option" where
  "MatrixTranslatorForwardEuler_getResidual fwd_euler M K b x_new_timestep =
     (let alpha = getCurrentXWeight fwd_euler;
          x_curr = getCurrentX fwd_euler x_new_timestep;
          x_old = getWeightedOldX fwd_euler
      in do {
        x_dot \<leftarrow> vec_sub (vec_scale alpha x_new_timestep) x_old;
        Mxdot \<leftarrow> mat_vec M x_dot;
        Kx \<leftarrow> mat_vec K x_curr;
        s \<leftarrow> vec_add Mxdot Kx;
        vec_sub s b
      })"

definition MatrixTranslatorForwardEuler_getJacobian :: "Matrix \<Rightarrow> Matrix" where
  "MatrixTranslatorForwardEuler_getJacobian Jac = Jac"

definition MatrixTranslatorForwardEuler :: "ForwardEuler \<Rightarrow> MatrixTranslator" where
  "MatrixTranslatorForwardEuler timeDisc =
     \<lparr> getA = MatrixTranslatorForwardEuler_getA timeDisc,
       getRhs = MatrixTranslatorForwardEuler_getRhs timeDisc,
       getResidual = MatrixTranslatorForwardEuler_getResidual timeDisc,
       getJacobian = MatrixTranslatorForwardEuler_getJacobian \<rparr>"

section \<open>The time-discretized systems\<close>

subsection \<open>\<open>TimeDiscretizedODESystem<NonlinearSolverTag::Newton>\<close>\<close>

text \<open>
  The adapter holds references to the Equation, the strategy and the translator
  (\<open>_ode\<close>, \<open>_time_disc\<close>, \<open>_mat_trans\<close>), which it cannot rebind, and owns the four
  matrices \<open>_Jac\<close>, \<open>_M\<close>, \<open>_K\<close>, \<open>_b\<close>. The two assembly functions return the adapter
  they leave behind. A function that answers the solver returns its result and, beside
  it, the adapter it leaves behind: the translator takes M, K, b and x by constant
  reference and Jac by value, and \<open>isLinear\<close> is \<open>const\<close>.
\<close>

record TimeDiscretizedODESystem_Newton =
  newton_ode :: IFirstOrderImplicitOde
  newton_time_disc :: ITimeDiscretization
  newton_mat_trans :: MatrixTranslator
  newton_Jac :: Matrix
  newton_M :: Matrix
  newton_K :: Matrix
  newton_b :: Vector

definition Newton_assembleResidualNewton ::
  "TimeDiscretizedODESystem_Newton \<Rightarrow> Vector \<Rightarrow> TimeDiscretizedODESystem_Newton" where
  "Newton_assembleResidualNewton sys x_new_timestep =
     (let t = getCurrentTime (newton_time_disc sys);
          x_curr = getCurrentX (newton_time_disc sys) x_new_timestep
      in case assemble (newton_ode sys) t x_curr (newton_M sys) (newton_K sys) (newton_b sys) of
           (M', K', b') \<Rightarrow> sys\<lparr> newton_M := M', newton_K := K', newton_b := b' \<rparr>)"

definition Newton_assembleJacobian ::
  "TimeDiscretizedODESystem_Newton \<Rightarrow> Vector \<Rightarrow> TimeDiscretizedODESystem_Newton" where
  "Newton_assembleJacobian sys x_new_timestep =
     (let t = getCurrentTime (newton_time_disc sys);
          x_curr = getCurrentX (newton_time_disc sys) x_new_timestep;
          dxdot_dx = getCurrentXWeight (newton_time_disc sys);
          Jac' = assembleJacobian (newton_ode sys) t x_curr dxdot_dx
                   (getDxDx (newton_time_disc sys)) (newton_Jac sys)
      in sys\<lparr> newton_Jac := adjustMatrix (newton_time_disc sys) Jac' \<rparr>)"

definition Newton_getResidual ::
  "TimeDiscretizedODESystem_Newton \<Rightarrow> Vector \<Rightarrow>
   Vector option \<times> TimeDiscretizedODESystem_Newton" where
  "Newton_getResidual sys x_new_timestep =
     (getResidual (newton_mat_trans sys) (newton_M sys) (newton_K sys) (newton_b sys)
        x_new_timestep, sys)"

definition Newton_getJacobian ::
  "TimeDiscretizedODESystem_Newton \<Rightarrow> Matrix \<times> TimeDiscretizedODESystem_Newton" where
  "Newton_getJacobian sys = (getJacobian (newton_mat_trans sys) (newton_Jac sys), sys)"

definition Newton_isLinear ::
  "TimeDiscretizedODESystem_Newton \<Rightarrow> bool \<times> TimeDiscretizedODESystem_Newton" where
  "Newton_isLinear sys =
     (isLinearTimeDisc (newton_time_disc sys) \<or> isLinear (newton_ode sys), sys)"

subsection \<open>\<open>TimeDiscretizedODESystem<NonlinearSolverTag::Picard>\<close>\<close>

record TimeDiscretizedODESystem_Picard =
  picard_ode :: IFirstOrderImplicitOde
  picard_time_disc :: ITimeDiscretization
  picard_mat_trans :: MatrixTranslator
  picard_M :: Matrix
  picard_K :: Matrix
  picard_b :: Vector

definition Picard_assembleMatricesPicard ::
  "TimeDiscretizedODESystem_Picard \<Rightarrow> Vector \<Rightarrow> TimeDiscretizedODESystem_Picard" where
  "Picard_assembleMatricesPicard sys x_new_timestep =
     (let t = getCurrentTime (picard_time_disc sys);
          x_curr = getCurrentX (picard_time_disc sys) x_new_timestep
      in case assemble (picard_ode sys) t x_curr (picard_M sys) (picard_K sys) (picard_b sys) of
           (M', K', b') \<Rightarrow> sys\<lparr> picard_M := M', picard_K := K', picard_b := b' \<rparr>)"

definition Picard_getA ::
  "TimeDiscretizedODESystem_Picard \<Rightarrow> Matrix option \<times> TimeDiscretizedODESystem_Picard" where
  "Picard_getA sys =
     (timeDisc_getA (picard_time_disc sys) (picard_M sys) (picard_K sys), sys)"

definition Picard_getRhs ::
  "TimeDiscretizedODESystem_Picard \<Rightarrow> Vector option \<times> TimeDiscretizedODESystem_Picard" where
  "Picard_getRhs sys =
     (timeDisc_getRhs (picard_time_disc sys) (picard_M sys) (picard_K sys) (picard_b sys), sys)"

definition Picard_isLinear ::
  "TimeDiscretizedODESystem_Picard \<Rightarrow> bool \<times> TimeDiscretizedODESystem_Picard" where
  "Picard_isLinear sys =
     (isLinearTimeDisc (picard_time_disc sys) \<or> isLinear (picard_ode sys), sys)"

section \<open>Example instances\<close>

text \<open>
  Concrete strategies, Equations and adapters on which the theorems below are run.
  \<open>implicit_1d\<close> and \<open>forward_euler_1d\<close> are the two one-dimensional scenarios of the
  spec: weight 1 and weighted old state \<open>[0.5]\<close>; the implicit one evaluates the operator
  at the new state, the forward-explicit one at its old state \<open>[1]\<close>.
\<close>

definition implicit_1d :: ITimeDiscretization where
  "implicit_1d =
     \<lparr> getCurrentTime = 1, getCurrentXWeight = 1, getCurrentX = (\<lambda>x. x),
       getWeightedOldX = [1/2], getDxDx = 1, isLinearTimeDisc = True,
       adjustMatrix = (\<lambda>Jac. Jac),
       timeDisc_getA = (\<lambda>M K. mat_add (mat_scale M 1) K),
       timeDisc_getRhs = (\<lambda>M K b. do { Mw \<leftarrow> mat_vec M [1/2]; vec_add b Mw }) \<rparr>"

definition forward_euler_1d :: ForwardEuler where
  "forward_euler_1d =
     \<lparr> getCurrentTime = 0, getCurrentXWeight = 1, getCurrentX = (\<lambda>x. [1]),
       getWeightedOldX = [1/2], getDxDx = 0, isLinearTimeDisc = True,
       adjustMatrix = (\<lambda>Jac. Jac),
       timeDisc_getA = (\<lambda>M K. Some (mat_scale M 1)),
       timeDisc_getRhs = (\<lambda>M K b. do { Mw \<leftarrow> mat_vec M [1/2]; vec_add b Mw }),
       getXOld = [1] \<rparr>"

definition implicit_2d :: ITimeDiscretization where
  "implicit_2d =
     \<lparr> getCurrentTime = 1/2, getCurrentXWeight = 2, getCurrentX = (\<lambda>x. x),
       getWeightedOldX = [1, 1], getDxDx = 1, isLinearTimeDisc = True,
       adjustMatrix = (\<lambda>Jac. Jac),
       timeDisc_getA = (\<lambda>M K. mat_add (mat_scale M 2) K),
       timeDisc_getRhs = (\<lambda>M K b. do { Mw \<leftarrow> mat_vec M [1, 1]; vec_add b Mw }) \<rparr>"

definition forward_euler_2d :: ForwardEuler where
  "forward_euler_2d =
     \<lparr> getCurrentTime = 0, getCurrentXWeight = 2, getCurrentX = (\<lambda>x. [1, 1]),
       getWeightedOldX = [1, 1], getDxDx = 0, isLinearTimeDisc = True,
       adjustMatrix = (\<lambda>Jac. Jac),
       timeDisc_getA = (\<lambda>M K. Some (mat_scale M 2)),
       timeDisc_getRhs = (\<lambda>M K b. do { Mw \<leftarrow> mat_vec M [1, 1]; vec_add b Mw }),
       getXOld = [1, 1] \<rparr>"

text \<open>
  A strategy that is not of the forward-explicit kind, so that the general translator is
  the one bound to it, and that evaluates the operator halfway between its old state
  \<open>[1]\<close> and the new state.
\<close>

definition midpoint_1d :: ITimeDiscretization where
  "midpoint_1d =
     \<lparr> getCurrentTime = 1/2, getCurrentXWeight = 1, getCurrentX = map (\<lambda>a. (a + 1) / 2),
       getWeightedOldX = [1], getDxDx = 1/2, isLinearTimeDisc = True,
       adjustMatrix = (\<lambda>Jac. Jac),
       timeDisc_getA = (\<lambda>M K. mat_add (mat_scale M 1) K),
       timeDisc_getRhs = (\<lambda>M K b. do { Mw \<leftarrow> mat_vec M [1]; vec_add b Mw }) \<rparr>"

text \<open>An Equation that reports itself nonlinear, bound to the linear strategy above.\<close>

definition nonlinear_ode_1d :: IFirstOrderImplicitOde where
  "nonlinear_ode_1d =
     \<lparr> getMatrixSize = 1, isLinear = False,
       assemble = (\<lambda>t x M K b. ([[1]], [map (\<lambda>a. a * a) x], [3])),
       assembleJacobian = (\<lambda>t x dxdot_dx dx_dx Jac. [map (\<lambda>a. dxdot_dx + 3 * a * a) x]) \<rparr>"

definition newton_1d :: TimeDiscretizedODESystem_Newton where
  "newton_1d =
     \<lparr> newton_ode = nonlinear_ode_1d, newton_time_disc = implicit_1d,
       newton_mat_trans = MatrixTranslatorGeneral implicit_1d,
       newton_Jac = [[0]], newton_M = [[0]], newton_K = [[0]], newton_b = [0] \<rparr>"

definition picard_1d :: TimeDiscretizedODESystem_Picard where
  "picard_1d =
     \<lparr> picard_ode = nonlinear_ode_1d, picard_time_disc = implicit_1d,
       picard_mat_trans = MatrixTranslatorGeneral implicit_1d,
       picard_M = [[0]], picard_K = [[0]], picard_b = [0] \<rparr>"

section \<open>Facts about the linear algebra\<close>

lemma dot_sum: "length r = length v \<Longrightarrow> dot r v = (\<Sum>j<length v. r ! j * v ! j)"
  unfolding dot_def by (simp add: sum_list_sum_nth atLeast0LessThan)

lemma is_matrix_row: "is_matrix r c A \<Longrightarrow> i < r \<Longrightarrow> length (A ! i) = c"
  by (simp add: is_matrix_def list_all_length)

lemma is_matrix_rows: "is_matrix r c A \<Longrightarrow> length A = r"
  by (simp add: is_matrix_def)

lemma row_dot:
  "is_matrix r c A \<Longrightarrow> length v = c \<Longrightarrow> i < r \<Longrightarrow>
   dot (A ! i) v = (\<Sum>j<c. A ! i ! j * v ! j)"
  by (simp add: is_matrix_row dot_sum)

lemma mat_vec_Some:
  "is_matrix r c A \<Longrightarrow> length v = c \<Longrightarrow> mat_vec A v = Some (map (\<lambda>row. dot row v) A)"
  by (simp add: mat_vec_def is_matrix_def)

lemma mat_vec_nth:
  "is_matrix r c A \<Longrightarrow> length v = c \<Longrightarrow> i < r \<Longrightarrow>
   map (\<lambda>row. dot row v) A ! i = (\<Sum>j<c. A ! i ! j * v ! j)"
  by (simp add: is_matrix_def list_all_length dot_sum)

lemma mat_add_Some:
  "is_matrix r c A \<Longrightarrow> is_matrix r c B \<Longrightarrow> mat_add A B = Some (map2 (map2 (+)) A B)"
  by (simp add: mat_add_def is_matrix_def list_all2_conv_all_nth list_all_length)

lemma is_matrix_mat_scale: "is_matrix r c A \<Longrightarrow> is_matrix r c (mat_scale A s)"
  by (simp add: is_matrix_def mat_scale_def list_all_length)

lemma mat_scale_nth:
  "is_matrix r c A \<Longrightarrow> i < r \<Longrightarrow> j < c \<Longrightarrow> mat_scale A s ! i ! j = A ! i ! j * s"
  by (simp add: is_matrix_def mat_scale_def list_all_length)

lemma is_matrix_map2_add:
  "is_matrix r c A \<Longrightarrow> is_matrix r c B \<Longrightarrow> is_matrix r c (map2 (map2 (+)) A B)"
  by (simp add: is_matrix_def list_all_length)

lemma map2_add_nth:
  "is_matrix r c A \<Longrightarrow> is_matrix r c B \<Longrightarrow> i < r \<Longrightarrow> j < c \<Longrightarrow>
   map2 (map2 (+)) A B ! i ! j = A ! i ! j + B ! i ! j"
  by (simp add: is_matrix_def list_all_length)

lemma dot_diff_scaled:
  assumes "length row = n" "length x = n" "length w = n"
  shows "dot row (map2 (-) (vec_scale a x) w) = (\<Sum>j<n. row ! j * (a * x ! j - w ! j))"
proof -
  have "dot row (map2 (-) (vec_scale a x) w) =
        (\<Sum>j<n. row ! j * (map2 (-) (vec_scale a x) w ! j))"
    using assms by (simp add: dot_sum vec_scale_def)
  also have "\<dots> = (\<Sum>j<n. row ! j * (a * x ! j - w ! j))"
    using assms by (intro sum.cong) (simp_all add: vec_scale_def)
  finally show ?thesis .
qed

section \<open>What the translators compute\<close>

lemma General_getA_eq:
  "is_matrix n n M \<Longrightarrow> is_matrix n n K \<Longrightarrow>
   MatrixTranslatorGeneral_getA td M K =
     Some (map2 (map2 (+)) (mat_scale M (getCurrentXWeight td)) K)"
  using mat_add_Some [OF is_matrix_mat_scale [of n n M "getCurrentXWeight td"], of K]
  by (simp add: MatrixTranslatorGeneral_getA_def)

lemma General_getRhs_eq:
  "is_matrix n n M \<Longrightarrow> length b = n \<Longrightarrow> length (getWeightedOldX td) = n \<Longrightarrow>
   MatrixTranslatorGeneral_getRhs td M K b =
     Some (map2 (+) b (map (\<lambda>row. dot row (getWeightedOldX td)) M))"
  by (simp add: MatrixTranslatorGeneral_getRhs_def mat_vec_Some vec_add_def is_matrix_rows)

lemma ForwardEuler_getRhs_eq:
  "is_matrix n n M \<Longrightarrow> is_matrix n n K \<Longrightarrow> length b = n \<Longrightarrow>
   length (getWeightedOldX fe) = n \<Longrightarrow> length (getXOld fe) = n \<Longrightarrow>
   MatrixTranslatorForwardEuler_getRhs fe M K b =
     Some (map2 (-) (map2 (+) b (map (\<lambda>row. dot row (getWeightedOldX fe)) M))
                    (map (\<lambda>row. dot row (getXOld fe)) K))"
  by (simp add: MatrixTranslatorForwardEuler_getRhs_def mat_vec_Some vec_add_def vec_sub_def
      is_matrix_rows)

lemma General_getResidual_eq:
  "is_matrix n n M \<Longrightarrow> is_matrix n n K \<Longrightarrow> length b = n \<Longrightarrow> length x = n \<Longrightarrow>
   length (getWeightedOldX td) = n \<Longrightarrow> length (getCurrentX td x) = n \<Longrightarrow>
   MatrixTranslatorGeneral_getResidual td M K b x =
     Some (map2 (-)
       (map2 (+)
         (map (\<lambda>row. dot row (map2 (-) (vec_scale (getCurrentXWeight td) x)
                                         (getWeightedOldX td))) M)
         (map (\<lambda>row. dot row (getCurrentX td x)) K))
       b)"
  by (simp add: MatrixTranslatorGeneral_getResidual_def mat_vec_Some vec_add_def vec_sub_def
      vec_scale_def is_matrix_rows)

lemma getResidual_variants_eq:
  "MatrixTranslatorForwardEuler_getResidual fe M K b x =
   MatrixTranslatorGeneral_getResidual fe M K b x"
  by (simp add: MatrixTranslatorForwardEuler_getResidual_def
      MatrixTranslatorGeneral_getResidual_def)

lemma General_getRhs_nth:
  assumes "is_matrix n n M" "length b = n" "length w = n" "i < n"
  shows "map2 (+) b (map (\<lambda>row. dot row w) M) ! i = b ! i + (\<Sum>j<n. M ! i ! j * w ! j)"
  using assms by (simp add: is_matrix_rows row_dot [of n n M w i])

lemma ForwardEuler_getRhs_nth:
  assumes "is_matrix n n M" "is_matrix n n K" "length b = n" "length w = n"
    "length xo = n" "i < n"
  shows "map2 (-) (map2 (+) b (map (\<lambda>row. dot row w) M)) (map (\<lambda>row. dot row xo) K) ! i =
         b ! i + (\<Sum>j<n. M ! i ! j * w ! j) - (\<Sum>j<n. K ! i ! j * xo ! j)"
  using assms
  by (simp add: is_matrix_rows row_dot [of n n M w i] row_dot [of n n K xo i])

lemma getResidual_nth:
  assumes "is_matrix n n M" "is_matrix n n K" "length b = n" "length x = n" "length w = n"
    "length xc = n" "i < n"
  shows "map2 (-) (map2 (+) (map (\<lambda>row. dot row (map2 (-) (vec_scale a x) w)) M)
                            (map (\<lambda>row. dot row xc) K)) b ! i =
         (\<Sum>j<n. M ! i ! j * (a * x ! j - w ! j)) + (\<Sum>j<n. K ! i ! j * xc ! j) - b ! i"
proof -
  have "length (M ! i) = n"
    using assms(1,7) by (rule is_matrix_row)
  then have "dot (M ! i) (map2 (-) (vec_scale a x) w) = (\<Sum>j<n. M ! i ! j * (a * x ! j - w ! j))"
    using assms(4,5) by (rule dot_diff_scaled)
  then show ?thesis
    using assms by (simp add: is_matrix_rows row_dot [of n n K xc i])
qed

lemma General_residual_zero:
  assumes M: "is_matrix n n M" and K: "is_matrix n n K" and b: "length b = n"
    and x: "length x = n" and w: "length (getWeightedOldX td) = n"
    and cur: "getCurrentX td x = x"
    and A: "MatrixTranslatorGeneral_getA td M K = Some A"
    and rhs: "MatrixTranslatorGeneral_getRhs td M K b = Some rhs"
    and sol: "mat_vec A x = Some rhs"
  shows "MatrixTranslatorGeneral_getResidual td M K b x = Some (replicate n 0)"
proof -
  let ?a = "getCurrentXWeight td" and ?w = "getWeightedOldX td"
  let ?A = "map2 (map2 (+)) (mat_scale M ?a) K"
  let ?rhs = "map2 (+) b (map (\<lambda>row. dot row ?w) M)"
  let ?r = "map2 (-) (map2 (+) (map (\<lambda>row. dot row (map2 (-) (vec_scale ?a x) ?w)) M)
                               (map (\<lambda>row. dot row x) K)) b"
  have sc: "is_matrix n n (mat_scale M ?a)"
    using M by (rule is_matrix_mat_scale)
  have A_eq: "A = ?A"
    using A General_getA_eq [OF M K, of td] by simp
  have rhs_eq: "rhs = ?rhs"
    using rhs General_getRhs_eq [OF M b w, of K] by simp
  have A_mat: "is_matrix n n ?A"
    using sc K by (rule is_matrix_map2_add)
  have "mat_vec ?A x = Some (map (\<lambda>row. dot row x) ?A)"
    using A_mat x by (rule mat_vec_Some)
  with sol A_eq rhs_eq have prod_eq: "map (\<lambda>row. dot row x) ?A = ?rhs"
    by simp
  have res: "MatrixTranslatorGeneral_getResidual td M K b x = Some ?r"
    using General_getResidual_eq [OF M K b x w] cur x by simp
  have len: "length ?r = n"
    using M K b by (simp add: is_matrix_rows)
  have "?r ! i = 0" if i: "i < n" for i
  proof -
    have "map (\<lambda>row. dot row x) ?A ! i = ?rhs ! i"
      using prod_eq by simp
    moreover have "map (\<lambda>row. dot row x) ?A ! i = (\<Sum>j<n. ?A ! i ! j * x ! j)"
      using A_mat x i by (rule mat_vec_nth)
    moreover have "(\<Sum>j<n. ?A ! i ! j * x ! j) = (\<Sum>j<n. (M ! i ! j * ?a + K ! i ! j) * x ! j)"
      using sc M K i by (intro sum.cong) (simp_all add: map2_add_nth mat_scale_nth)
    moreover have "?rhs ! i = b ! i + (\<Sum>j<n. M ! i ! j * ?w ! j)"
      using M b w i by (rule General_getRhs_nth)
    ultimately have lin: "(\<Sum>j<n. (M ! i ! j * ?a + K ! i ! j) * x ! j) =
        b ! i + (\<Sum>j<n. M ! i ! j * ?w ! j)"
      by simp
    have "?r ! i = (\<Sum>j<n. M ! i ! j * (?a * x ! j - ?w ! j)) + (\<Sum>j<n. K ! i ! j * x ! j) - b ! i"
      using M K b x w x i by (rule getResidual_nth)
    also have "\<dots> = (\<Sum>j<n. (M ! i ! j * ?a + K ! i ! j) * x ! j)
                    - (\<Sum>j<n. M ! i ! j * ?w ! j) - b ! i"
      by (simp add: algebra_simps sum.distrib sum_subtractf)
    also have "\<dots> = 0"
      using lin by simp
    finally show ?thesis .
  qed
  then have "?r = replicate n 0"
    using len by (intro nth_equalityI) simp_all
  with res show ?thesis by simp
qed

lemma ForwardEuler_residual_zero:
  assumes M: "is_matrix n n M" and K: "is_matrix n n K" and b: "length b = n"
    and x: "length x = n" and w: "length (getWeightedOldX fe) = n"
    and xo: "length (getXOld fe) = n"
    and cur: "getCurrentX fe x = getXOld fe"
    and A: "MatrixTranslatorForwardEuler_getA fe M K = Some A"
    and rhs: "MatrixTranslatorForwardEuler_getRhs fe M K b = Some rhs"
    and sol: "mat_vec A x = Some rhs"
  shows "MatrixTranslatorForwardEuler_getResidual fe M K b x = Some (replicate n 0)"
proof -
  let ?a = "getCurrentXWeight fe" and ?w = "getWeightedOldX fe" and ?xo = "getXOld fe"
  let ?A = "mat_scale M ?a"
  let ?rhs = "map2 (-) (map2 (+) b (map (\<lambda>row. dot row ?w) M)) (map (\<lambda>row. dot row ?xo) K)"
  let ?r = "map2 (-) (map2 (+) (map (\<lambda>row. dot row (map2 (-) (vec_scale ?a x) ?w)) M)
                               (map (\<lambda>row. dot row ?xo) K)) b"
  have A_mat: "is_matrix n n ?A"
    using M by (rule is_matrix_mat_scale)
  have A_eq: "A = ?A"
    using A by (simp add: MatrixTranslatorForwardEuler_getA_def)
  have rhs_eq: "rhs = ?rhs"
    using rhs ForwardEuler_getRhs_eq [OF M K b w xo] by simp
  have "mat_vec ?A x = Some (map (\<lambda>row. dot row x) ?A)"
    using A_mat x by (rule mat_vec_Some)
  with sol A_eq rhs_eq have prod_eq: "map (\<lambda>row. dot row x) ?A = ?rhs"
    by simp
  have "MatrixTranslatorGeneral_getResidual fe M K b x = Some ?r"
    using General_getResidual_eq [OF M K b x w] cur xo by simp
  then have res: "MatrixTranslatorForwardEuler_getResidual fe M K b x = Some ?r"
    by (simp add: getResidual_variants_eq)
  have len: "length ?r = n"
    using M K b by (simp add: is_matrix_rows)
  have "?r ! i = 0" if i: "i < n" for i
  proof -
    have "map (\<lambda>row. dot row x) ?A ! i = ?rhs ! i"
      using prod_eq by simp
    moreover have "map (\<lambda>row. dot row x) ?A ! i = (\<Sum>j<n. ?A ! i ! j * x ! j)"
      using A_mat x i by (rule mat_vec_nth)
    moreover have "(\<Sum>j<n. ?A ! i ! j * x ! j) = (\<Sum>j<n. M ! i ! j * ?a * x ! j)"
      using M i by (intro sum.cong) (simp_all add: mat_scale_nth)
    moreover have "?rhs ! i = b ! i + (\<Sum>j<n. M ! i ! j * ?w ! j) - (\<Sum>j<n. K ! i ! j * ?xo ! j)"
      using M K b w xo i by (rule ForwardEuler_getRhs_nth)
    ultimately have lin: "(\<Sum>j<n. M ! i ! j * ?a * x ! j) =
        b ! i + (\<Sum>j<n. M ! i ! j * ?w ! j) - (\<Sum>j<n. K ! i ! j * ?xo ! j)"
      by simp
    have "?r ! i = (\<Sum>j<n. M ! i ! j * (?a * x ! j - ?w ! j)) + (\<Sum>j<n. K ! i ! j * ?xo ! j) - b ! i"
      using M K b x w xo i by (rule getResidual_nth)
    also have "\<dots> = (\<Sum>j<n. M ! i ! j * ?a * x ! j) - (\<Sum>j<n. M ! i ! j * ?w ! j)
                    + (\<Sum>j<n. K ! i ! j * ?xo ! j) - b ! i"
      by (simp add: algebra_simps sum_subtractf)
    also have "\<dots> = 0"
      using lin by simp
    finally show ?thesis .
  qed
  then have "?r = replicate n 0"
    using len by (intro nth_equalityI) simp_all
  with res show ?thesis by simp
qed

section \<open>\<open>isLinear\<close> of the adapters\<close>

text \<open>
  C2. For every bound Equation and strategy, \<open>isLinear()\<close> of the Newton adapter and
  of the Picard adapter returns true if and only if the strategy's
  \<open>isLinearTimeDisc()\<close> is true or the Equation's \<open>isLinear()\<close> is true: the same
  disjunction in both adapters.
\<close>

theorem isLinear_disjunction:
  "fst (Newton_isLinear nsys) =
     (isLinearTimeDisc (newton_time_disc nsys) \<or> isLinear (newton_ode nsys)) \<and>
   fst (Picard_isLinear psys) =
     (isLinearTimeDisc (picard_time_disc psys) \<or> isLinear (picard_ode psys))"
  by (simp add: Newton_isLinear_def Picard_isLinear_def)

text \<open>
  C1, as stated: \<open>isLinear()\<close> is true exactly when both the Equation and the strategy
  report linear. It fails on \<open>newton_1d\<close> and \<open>picard_1d\<close>: the strategy is linear, the
  Equation is not, and both adapters answer true.
\<close>

theorem isLinear_conjunction_counterexample:
  "fst (Newton_isLinear newton_1d) \<and>
   \<not> (isLinear (newton_ode newton_1d) \<and> isLinearTimeDisc (newton_time_disc newton_1d)) \<and>
   fst (Picard_isLinear picard_1d) \<and>
   \<not> (isLinear (picard_ode picard_1d) \<and> isLinearTimeDisc (picard_time_disc picard_1d))"
  by (simp add: Newton_isLinear_def Picard_isLinear_def newton_1d_def picard_1d_def
      implicit_1d_def nonlinear_ode_1d_def)

text \<open>
  C1, amended. For every bound Equation and strategy, \<open>isLinear()\<close> of either adapter
  returns false exactly when both the Equation's \<open>isLinear()\<close> and the strategy's
  \<open>isLinearTimeDisc()\<close> are false; when one of the two is linear and the other is not,
  it returns true.
\<close>

theorem isLinear_false_iff_both_false:
  "(\<not> fst (Newton_isLinear nsys)) =
     (\<not> isLinear (newton_ode nsys) \<and> \<not> isLinearTimeDisc (newton_time_disc nsys)) \<and>
   (\<not> fst (Picard_isLinear psys)) =
     (\<not> isLinear (picard_ode psys) \<and> \<not> isLinearTimeDisc (picard_time_disc psys))"
  by (auto simp add: Newton_isLinear_def Picard_isLinear_def)

section \<open>The coefficient matrix\<close>

text \<open>
  C3. For n-by-n matrices M and K and every strategy, \<open>getA(M, K)\<close> of the general
  translator is the n-by-n matrix with entries \<open>M\<^sub>i\<^sub>j \<cdot> \<alpha> + K\<^sub>i\<^sub>j\<close>, and \<open>getA\<close> of the
  forward-explicit translator is the n-by-n matrix with entries \<open>M\<^sub>i\<^sub>j \<cdot> \<alpha>\<close>, whatever
  is passed for K; \<open>\<alpha>\<close> is the bound strategy's \<open>getCurrentXWeight()\<close>.
\<close>

theorem getA_formula:
  assumes "is_matrix n n M" and "is_matrix n n K"
  shows "(\<exists>A. getA (MatrixTranslatorGeneral time_disc) M K = Some A \<and> is_matrix n n A \<and>
            (\<forall>i<n. \<forall>j<n. A ! i ! j = M ! i ! j * getCurrentXWeight time_disc + K ! i ! j)) \<and>
         (\<exists>A. getA (MatrixTranslatorForwardEuler fwd_euler) M K' = Some A \<and> is_matrix n n A \<and>
            (\<forall>i<n. \<forall>j<n. A ! i ! j = M ! i ! j * getCurrentXWeight fwd_euler))"
proof
  let ?A = "map2 (map2 (+)) (mat_scale M (getCurrentXWeight time_disc)) K"
  have sc: "is_matrix n n (mat_scale M (getCurrentXWeight time_disc))"
    using assms(1) by (rule is_matrix_mat_scale)
  have "getA (MatrixTranslatorGeneral time_disc) M K = Some ?A"
    using assms by (simp add: MatrixTranslatorGeneral_def General_getA_eq)
  moreover have "is_matrix n n ?A"
    using sc assms(2) by (rule is_matrix_map2_add)
  moreover have "\<forall>i<n. \<forall>j<n. ?A ! i ! j = M ! i ! j * getCurrentXWeight time_disc + K ! i ! j"
    using sc assms by (simp add: map2_add_nth mat_scale_nth)
  ultimately show "\<exists>A. getA (MatrixTranslatorGeneral time_disc) M K = Some A \<and> is_matrix n n A \<and>
            (\<forall>i<n. \<forall>j<n. A ! i ! j = M ! i ! j * getCurrentXWeight time_disc + K ! i ! j)"
    by blast
next
  let ?A = "mat_scale M (getCurrentXWeight fwd_euler)"
  have "getA (MatrixTranslatorForwardEuler fwd_euler) M K' = Some ?A"
    by (simp add: MatrixTranslatorForwardEuler_def MatrixTranslatorForwardEuler_getA_def)
  moreover have "is_matrix n n ?A"
    using assms(1) by (rule is_matrix_mat_scale)
  moreover have "\<forall>i<n. \<forall>j<n. ?A ! i ! j = M ! i ! j * getCurrentXWeight fwd_euler"
    using assms(1) by (simp add: mat_scale_nth)
  ultimately show "\<exists>A. getA (MatrixTranslatorForwardEuler fwd_euler) M K' = Some A \<and>
      is_matrix n n A \<and> (\<forall>i<n. \<forall>j<n. A ! i ! j = M ! i ! j * getCurrentXWeight fwd_euler)"
    by blast
qed

theorem getA_formula_witness:
  "is_matrix 2 2 [[2, 1], [0, 1]] \<and> is_matrix 2 2 [[1, 0], [1, 3]] \<and>
   getA (MatrixTranslatorGeneral implicit_2d) [[2, 1], [0, 1]] [[1, 0], [1, 3]] =
     Some [[5, 2], [1, 5]] \<and>
   getA (MatrixTranslatorForwardEuler forward_euler_2d) [[2, 1], [0, 1]] [] =
     Some [[4, 2], [0, 2]]"
proof -
  have M: "is_matrix 2 2 [[2, 1], [0, 1]]" and K: "is_matrix 2 2 [[1, 0], [1, 3]]"
    by (simp_all add: is_matrix_def)
  obtain A A' where
    A: "getA (MatrixTranslatorGeneral implicit_2d) [[2, 1], [0, 1]] [[1, 0], [1, 3]] = Some A"
      "is_matrix 2 2 A"
      "\<forall>i<2. \<forall>j<2. A ! i ! j =
         [[2, 1], [0, 1]] ! i ! j * getCurrentXWeight implicit_2d + [[1, 0], [1, 3]] ! i ! j"
    and A': "getA (MatrixTranslatorForwardEuler forward_euler_2d) [[2, 1], [0, 1]] [] = Some A'"
      "is_matrix 2 2 A'"
      "\<forall>i<2. \<forall>j<2. A' ! i ! j = [[2, 1], [0, 1]] ! i ! j * getCurrentXWeight forward_euler_2d"
    using getA_formula [OF M K, of implicit_2d forward_euler_2d "[]"] by blast
  have "A = [[5, 2], [1, 5]]"
    using A(1) by (simp add: MatrixTranslatorGeneral_def MatrixTranslatorGeneral_getA_def
        implicit_2d_def mat_add_def mat_scale_def)
  moreover have "A' = [[4, 2], [0, 2]]"
    using A'(1) by (simp add: MatrixTranslatorForwardEuler_def
        MatrixTranslatorForwardEuler_getA_def forward_euler_2d_def mat_scale_def)
  ultimately show ?thesis
    using M K A(1) A'(1) by simp
qed

section \<open>The right-hand side\<close>

text \<open>
  C4. For n-by-n matrices M and K, a vector b of length n and a strategy whose history
  vectors have length n: \<open>getRhs(M, K, b)\<close> of the general translator is the vector of
  length n with entries \<open>b\<^sub>i + (M \<cdot> weightedOldX)\<^sub>i\<close>, whatever is passed for K, and
  \<open>getRhs\<close> of the forward-explicit translator is the vector with entries
  \<open>b\<^sub>i + (M \<cdot> weightedOldX)\<^sub>i - (K \<cdot> xOld)\<^sub>i\<close>.
\<close>

theorem getRhs_formula:
  assumes "is_matrix n n M" and "is_matrix n n K" and "length b = n"
    and "length (getWeightedOldX time_disc) = n"
    and "length (getWeightedOldX fwd_euler) = n" and "length (getXOld fwd_euler) = n"
  shows "(\<exists>rhs. getRhs (MatrixTranslatorGeneral time_disc) M K' b = Some rhs \<and> length rhs = n \<and>
            (\<forall>i<n. rhs ! i = b ! i + (\<Sum>j<n. M ! i ! j * getWeightedOldX time_disc ! j))) \<and>
         (\<exists>rhs. getRhs (MatrixTranslatorForwardEuler fwd_euler) M K b = Some rhs \<and>
            length rhs = n \<and>
            (\<forall>i<n. rhs ! i = b ! i + (\<Sum>j<n. M ! i ! j * getWeightedOldX fwd_euler ! j)
                                  - (\<Sum>j<n. K ! i ! j * getXOld fwd_euler ! j)))"
proof
  let ?w = "getWeightedOldX time_disc"
  let ?rhs = "map2 (+) b (map (\<lambda>row. dot row ?w) M)"
  have "getRhs (MatrixTranslatorGeneral time_disc) M K' b = Some ?rhs"
    using assms(1,3,4) by (simp add: MatrixTranslatorGeneral_def General_getRhs_eq)
  moreover have "length ?rhs = n"
    using assms(1,3) by (simp add: is_matrix_rows)
  moreover have "\<forall>i<n. ?rhs ! i = b ! i + (\<Sum>j<n. M ! i ! j * ?w ! j)"
    using assms(1,3,4) by (simp add: General_getRhs_nth)
  ultimately show "\<exists>rhs. getRhs (MatrixTranslatorGeneral time_disc) M K' b = Some rhs \<and>
      length rhs = n \<and> (\<forall>i<n. rhs ! i = b ! i + (\<Sum>j<n. M ! i ! j * ?w ! j))"
    by blast
next
  let ?w = "getWeightedOldX fwd_euler" and ?xo = "getXOld fwd_euler"
  let ?rhs = "map2 (-) (map2 (+) b (map (\<lambda>row. dot row ?w) M)) (map (\<lambda>row. dot row ?xo) K)"
  have "getRhs (MatrixTranslatorForwardEuler fwd_euler) M K b = Some ?rhs"
    using assms(1,2,3,5,6) by (simp add: MatrixTranslatorForwardEuler_def ForwardEuler_getRhs_eq)
  moreover have "length ?rhs = n"
    using assms(1,2,3) by (simp add: is_matrix_rows)
  moreover have "\<forall>i<n. ?rhs ! i = b ! i + (\<Sum>j<n. M ! i ! j * ?w ! j)
                                   - (\<Sum>j<n. K ! i ! j * ?xo ! j)"
    using assms(1,2,3,5,6) by (simp add: ForwardEuler_getRhs_nth)
  ultimately show "\<exists>rhs. getRhs (MatrixTranslatorForwardEuler fwd_euler) M K b = Some rhs \<and>
      length rhs = n \<and>
      (\<forall>i<n. rhs ! i = b ! i + (\<Sum>j<n. M ! i ! j * ?w ! j) - (\<Sum>j<n. K ! i ! j * ?xo ! j))"
    by blast
qed

theorem getRhs_formula_witness:
  "is_matrix 2 2 [[2, 1], [0, 1]] \<and> is_matrix 2 2 [[1, 0], [1, 3]] \<and>
   length [6, 10 :: real] = 2 \<and> length (getWeightedOldX implicit_2d) = 2 \<and>
   length (getWeightedOldX forward_euler_2d) = 2 \<and> length (getXOld forward_euler_2d) = 2 \<and>
   getRhs (MatrixTranslatorGeneral implicit_2d) [[2, 1], [0, 1]] [] [6, 10] = Some [9, 11] \<and>
   getRhs (MatrixTranslatorForwardEuler forward_euler_2d) [[2, 1], [0, 1]] [[1, 0], [1, 3]]
     [6, 10] = Some [8, 7]"
proof -
  have M: "is_matrix 2 2 [[2, 1], [0, 1]]" and K: "is_matrix 2 2 [[1, 0], [1, 3]]"
    by (simp_all add: is_matrix_def)
  have b: "length [6, 10 :: real] = 2"
    by simp
  have w: "length (getWeightedOldX implicit_2d) = 2"
    by (simp add: implicit_2d_def)
  have w': "length (getWeightedOldX forward_euler_2d) = 2"
    and xo: "length (getXOld forward_euler_2d) = 2"
    by (simp_all add: forward_euler_2d_def)
  obtain r r' where
    r: "getRhs (MatrixTranslatorGeneral implicit_2d) [[2, 1], [0, 1]] [] [6, 10] = Some r"
    and r': "getRhs (MatrixTranslatorForwardEuler forward_euler_2d) [[2, 1], [0, 1]]
               [[1, 0], [1, 3]] [6, 10] = Some r'"
    using getRhs_formula [OF M K b w w' xo, of "[]"] by blast
  have "r = [9, 11]"
    using r by (simp add: MatrixTranslatorGeneral_def MatrixTranslatorGeneral_getRhs_def
        implicit_2d_def mat_vec_def vec_add_def dot_def)
  moreover have "r' = [8, 7]"
    using r' by (simp add: MatrixTranslatorForwardEuler_def
        MatrixTranslatorForwardEuler_getRhs_def forward_euler_2d_def mat_vec_def vec_add_def
        vec_sub_def dot_def)
  ultimately show ?thesis
    using M K b w w' xo r r' by simp
qed

section \<open>The residual\<close>

text \<open>
  C5. The two variants compute the same residual: bound to the same strategy, the
  forward-explicit translator's \<open>getResidual\<close> and the general translator's
  \<open>getResidual\<close> agree on every argument. For n-by-n matrices M and K, vectors b and
  x_new of length n and a strategy whose \<open>weightedOldX\<close> and \<open>currentX(x_new)\<close> have
  length n, the result is the vector of length n with entries
  \<open>(M \<cdot> (\<alpha> \<cdot> x_new - weightedOldX))\<^sub>i + (K \<cdot> x_curr)\<^sub>i - b\<^sub>i\<close>, where \<open>\<alpha>\<close>, \<open>weightedOldX\<close>
  and \<open>x_curr = currentX(x_new)\<close> come from the bound strategy.
\<close>

theorem getResidual_same_formula:
  assumes "is_matrix n n M" and "is_matrix n n K" and "length b = n" and "length x_new = n"
    and "length (getWeightedOldX time_disc) = n"
    and "length (getCurrentX time_disc x_new) = n"
  shows "getResidual (MatrixTranslatorForwardEuler fwd_euler) M' K' b' x' =
           getResidual (MatrixTranslatorGeneral fwd_euler) M' K' b' x' \<and>
         (\<exists>r. getResidual (MatrixTranslatorGeneral time_disc) M K b x_new = Some r \<and>
            length r = n \<and>
            (\<forall>i<n. r ! i =
               (\<Sum>j<n. M ! i ! j * (getCurrentXWeight time_disc * x_new ! j
                                      - getWeightedOldX time_disc ! j))
               + (\<Sum>j<n. K ! i ! j * getCurrentX time_disc x_new ! j) - b ! i))"
proof
  show "getResidual (MatrixTranslatorForwardEuler fwd_euler) M' K' b' x' =
        getResidual (MatrixTranslatorGeneral fwd_euler) M' K' b' x'"
    by (simp add: MatrixTranslatorForwardEuler_def MatrixTranslatorGeneral_def
        getResidual_variants_eq)
next
  let ?a = "getCurrentXWeight time_disc" and ?w = "getWeightedOldX time_disc"
    and ?xc = "getCurrentX time_disc x_new"
  let ?r = "map2 (-) (map2 (+) (map (\<lambda>row. dot row (map2 (-) (vec_scale ?a x_new) ?w)) M)
                               (map (\<lambda>row. dot row ?xc) K)) b"
  have "getResidual (MatrixTranslatorGeneral time_disc) M K b x_new = Some ?r"
    using assms by (simp add: MatrixTranslatorGeneral_def General_getResidual_eq)
  moreover have "length ?r = n"
    using assms(1,2,3) by (simp add: is_matrix_rows)
  moreover have "\<forall>i<n. ?r ! i = (\<Sum>j<n. M ! i ! j * (?a * x_new ! j - ?w ! j))
                                 + (\<Sum>j<n. K ! i ! j * ?xc ! j) - b ! i"
    using assms by (simp add: getResidual_nth)
  ultimately show "\<exists>r. getResidual (MatrixTranslatorGeneral time_disc) M K b x_new = Some r \<and>
      length r = n \<and>
      (\<forall>i<n. r ! i = (\<Sum>j<n. M ! i ! j * (?a * x_new ! j - ?w ! j))
                      + (\<Sum>j<n. K ! i ! j * ?xc ! j) - b ! i)"
    by blast
qed

theorem getResidual_same_formula_witness:
  "is_matrix 2 2 [[2, 1], [0, 1]] \<and> is_matrix 2 2 [[1, 0], [1, 3]] \<and>
   length [6, 7 :: real] = 2 \<and> length [1, 2 :: real] = 2 \<and>
   length (getWeightedOldX forward_euler_2d) = 2 \<and>
   length (getCurrentX forward_euler_2d [1, 2]) = 2 \<and>
   getResidual (MatrixTranslatorForwardEuler forward_euler_2d) [[2, 1], [0, 1]]
     [[1, 0], [1, 3]] [6, 7] [1, 2] = Some [0, 0] \<and>
   getResidual (MatrixTranslatorGeneral forward_euler_2d) [[2, 1], [0, 1]]
     [[1, 0], [1, 3]] [6, 7] [1, 2] = Some [0, 0]"
proof -
  have M: "is_matrix 2 2 [[2, 1], [0, 1]]" and K: "is_matrix 2 2 [[1, 0], [1, 3]]"
    by (simp_all add: is_matrix_def)
  have b: "length [6, 7 :: real] = 2" and x: "length [1, 2 :: real] = 2"
    by simp_all
  have w: "length (getWeightedOldX forward_euler_2d) = 2"
    and xc: "length (getCurrentX forward_euler_2d [1, 2]) = 2"
    by (simp_all add: forward_euler_2d_def)
  note same = getResidual_same_formula [OF M K b x w xc,
      of forward_euler_2d "[[2, 1], [0, 1]]" "[[1, 0], [1, 3]]" "[6, 7]" "[1, 2]"]
  have "getResidual (MatrixTranslatorGeneral forward_euler_2d) [[2, 1], [0, 1]]
          [[1, 0], [1, 3]] [6, 7] [1, 2] = Some [0, 0]"
    by (simp add: MatrixTranslatorGeneral_def MatrixTranslatorGeneral_getResidual_def
        forward_euler_2d_def mat_vec_def vec_add_def vec_sub_def vec_scale_def dot_def)
  then show ?thesis
    using M K b x w xc same by simp
qed

section \<open>The residual at the solution of the linear system\<close>

text \<open>
  C6, as stated: for every strategy with \<open>\<alpha> > 0\<close>, the residual at the exact solution
  of \<open>A \<cdot> x = rhs\<close> is the zero vector. It fails for the general translator bound to
  \<open>midpoint_1d\<close>, whose evaluation point is not the new state: with \<open>M = [1]\<close>,
  \<open>K = [2]\<close>, \<open>b = [3]\<close>, \<open>\<alpha> = 1\<close> and \<open>weightedOldX = [1]\<close> the translator gives
  \<open>A = [3]\<close> and \<open>rhs = [4]\<close>, the solution is \<open>x = [4/3]\<close>, the evaluation point is
  \<open>[7/6]\<close>, and the residual is \<open>1 \<cdot> (4/3 - 1) + 2 \<cdot> 7/6 - 3 = -1/3\<close>.
\<close>

theorem residual_at_solution_counterexample:
  "0 < getCurrentXWeight midpoint_1d \<and>
   getA (MatrixTranslatorGeneral midpoint_1d) [[1]] [[2]] = Some [[3]] \<and>
   getRhs (MatrixTranslatorGeneral midpoint_1d) [[1]] [[2]] [3] = Some [4] \<and>
   mat_vec [[3]] [4/3] = Some [4] \<and>
   getResidual (MatrixTranslatorGeneral midpoint_1d) [[1]] [[2]] [3] [4/3] = Some [- 1/3] \<and>
   [- 1/3] \<noteq> replicate 1 (0::real)"
  by (simp add: MatrixTranslatorGeneral_def MatrixTranslatorGeneral_getA_def
      MatrixTranslatorGeneral_getRhs_def MatrixTranslatorGeneral_getResidual_def
      midpoint_1d_def mat_add_def mat_scale_def mat_vec_def vec_add_def vec_sub_def
      vec_scale_def dot_def)

text \<open>
  C6, amended. Let M and K be n-by-n, b and x of length n, and let the strategy's history
  vectors have length n. If x solves \<open>A \<cdot> x = rhs\<close> exactly, with \<open>A = getA(M, K)\<close> and
  \<open>rhs = getRhs(M, K, b)\<close> of a translator variant, and the strategy's evaluation point
  at x is the one that variant's linear system assumes (x itself for the general
  variant, \<open>xOld\<close> for the forward-explicit variant), then that variant's
  \<open>getResidual(M, K, b, x)\<close> is the zero vector of length n. Neither \<open>\<alpha> > 0\<close> nor the
  linearity of the Equation is needed.
\<close>

theorem residual_at_solution_zero:
  assumes "is_matrix n n M" and "is_matrix n n K" and "length b = n"
  shows
    "(length x = n \<and> length (getWeightedOldX time_disc) = n \<and>
      getCurrentX time_disc x = x \<and>
      getA (MatrixTranslatorGeneral time_disc) M K = Some A \<and>
      getRhs (MatrixTranslatorGeneral time_disc) M K b = Some rhs \<and>
      mat_vec A x = Some rhs
      \<longrightarrow> getResidual (MatrixTranslatorGeneral time_disc) M K b x = Some (replicate n 0)) \<and>
     (length x' = n \<and> length (getWeightedOldX fwd_euler) = n \<and>
      length (getXOld fwd_euler) = n \<and>
      getCurrentX fwd_euler x' = getXOld fwd_euler \<and>
      getA (MatrixTranslatorForwardEuler fwd_euler) M K = Some A' \<and>
      getRhs (MatrixTranslatorForwardEuler fwd_euler) M K b = Some rhs' \<and>
      mat_vec A' x' = Some rhs'
      \<longrightarrow> getResidual (MatrixTranslatorForwardEuler fwd_euler) M K b x' =
            Some (replicate n 0))"
  using assms General_residual_zero [of n M K b x time_disc A rhs]
    ForwardEuler_residual_zero [of n M K b x' fwd_euler A' rhs']
  by (simp add: MatrixTranslatorGeneral_def MatrixTranslatorForwardEuler_def)

theorem residual_at_solution_zero_witness:
  "is_matrix 2 2 [[2, 1], [0, 1]] \<and> is_matrix 2 2 [[1, 0], [1, 3]] \<and>
   length [6, 10 :: real] = 2 \<and> length [1, 2 :: real] = 2 \<and>
   length (getWeightedOldX implicit_2d) = 2 \<and> getCurrentX implicit_2d [1, 2] = [1, 2] \<and>
   getA (MatrixTranslatorGeneral implicit_2d) [[2, 1], [0, 1]] [[1, 0], [1, 3]] =
     Some [[5, 2], [1, 5]] \<and>
   getRhs (MatrixTranslatorGeneral implicit_2d) [[2, 1], [0, 1]] [[1, 0], [1, 3]] [6, 10] =
     Some [9, 11] \<and>
   mat_vec [[5, 2], [1, 5]] [1, 2] = Some [9, 11] \<and>
   getResidual (MatrixTranslatorGeneral implicit_2d) [[2, 1], [0, 1]] [[1, 0], [1, 3]]
     [6, 10] [1, 2] = Some [0, 0] \<and>
   length (getWeightedOldX forward_euler_2d) = 2 \<and> length (getXOld forward_euler_2d) = 2 \<and>
   length [1/4, 7/2 :: real] = 2 \<and>
   getCurrentX forward_euler_2d [1/4, 7/2] = getXOld forward_euler_2d \<and>
   getA (MatrixTranslatorForwardEuler forward_euler_2d) [[2, 1], [0, 1]] [[1, 0], [1, 3]] =
     Some [[4, 2], [0, 2]] \<and>
   getRhs (MatrixTranslatorForwardEuler forward_euler_2d) [[2, 1], [0, 1]] [[1, 0], [1, 3]]
     [6, 10] = Some [8, 7] \<and>
   mat_vec [[4, 2], [0, 2]] [1/4, 7/2] = Some [8, 7] \<and>
   getResidual (MatrixTranslatorForwardEuler forward_euler_2d) [[2, 1], [0, 1]]
     [[1, 0], [1, 3]] [6, 10] [1/4, 7/2] = Some [0, 0]"
proof -
  have M: "is_matrix 2 2 [[2, 1], [0, 1]]" and K: "is_matrix 2 2 [[1, 0], [1, 3]]"
    by (simp_all add: is_matrix_def)
  have b: "length [6, 10 :: real] = 2"
    by simp
  have g: "length [1, 2 :: real] = 2 \<and>
      length (getWeightedOldX implicit_2d) = 2 \<and> getCurrentX implicit_2d [1, 2] = [1, 2] \<and>
      getA (MatrixTranslatorGeneral implicit_2d) [[2, 1], [0, 1]] [[1, 0], [1, 3]] =
        Some [[5, 2], [1, 5]] \<and>
      getRhs (MatrixTranslatorGeneral implicit_2d) [[2, 1], [0, 1]] [[1, 0], [1, 3]] [6, 10] =
        Some [9, 11] \<and>
      mat_vec [[5, 2], [1, 5]] [1, 2] = Some [9, 11]"
    by (simp add: MatrixTranslatorGeneral_def MatrixTranslatorGeneral_getA_def
        MatrixTranslatorGeneral_getRhs_def implicit_2d_def mat_add_def mat_scale_def
        mat_vec_def vec_add_def dot_def)
  have f: "length [1/4, 7/2 :: real] = 2 \<and>
      length (getWeightedOldX forward_euler_2d) = 2 \<and> length (getXOld forward_euler_2d) = 2 \<and>
      getCurrentX forward_euler_2d [1/4, 7/2] = getXOld forward_euler_2d \<and>
      getA (MatrixTranslatorForwardEuler forward_euler_2d) [[2, 1], [0, 1]] [[1, 0], [1, 3]] =
        Some [[4, 2], [0, 2]] \<and>
      getRhs (MatrixTranslatorForwardEuler forward_euler_2d) [[2, 1], [0, 1]]
        [[1, 0], [1, 3]] [6, 10] = Some [8, 7] \<and>
      mat_vec [[4, 2], [0, 2]] [1/4, 7/2] = Some [8, 7]"
    by (simp add: MatrixTranslatorForwardEuler_def MatrixTranslatorForwardEuler_getA_def
        MatrixTranslatorForwardEuler_getRhs_def forward_euler_2d_def mat_scale_def
        mat_vec_def vec_add_def vec_sub_def dot_def)
  note zero = residual_at_solution_zero [OF M K b,
      of "[1, 2]" implicit_2d "[[5, 2], [1, 5]]" "[9, 11]"
         "[1/4, 7/2]" forward_euler_2d "[[4, 2], [0, 2]]" "[8, 7]"]
  have "getResidual (MatrixTranslatorGeneral implicit_2d) [[2, 1], [0, 1]] [[1, 0], [1, 3]]
          [6, 10] [1, 2] = Some (replicate 2 0)"
    using zero g by blast
  moreover have "getResidual (MatrixTranslatorForwardEuler forward_euler_2d) [[2, 1], [0, 1]]
          [[1, 0], [1, 3]] [6, 10] [1/4, 7/2] = Some (replicate 2 0)"
    using zero f by blast
  moreover have "replicate 2 (0::real) = [0, 0]"
    by (simp add: numeral_2_eq_2)
  ultimately show ?thesis
    using M K b g f by simp
qed

section \<open>The one-dimensional scenarios\<close>

text \<open>
  C8. In the one-dimensional instance \<open>M = [1]\<close>, \<open>K = [2]\<close>, \<open>b = [3]\<close>, \<open>\<alpha> = 1\<close>,
  \<open>weightedOldX = [0.5]\<close>: the general translator yields \<open>A = [3]\<close> and \<open>rhs = [3.5]\<close>,
  and, the scheme being the implicit one that evaluates the operator at the new state,
  its residual at \<open>x = [3.5/3]\<close> is \<open>[0]\<close>. With \<open>xOld = [1]\<close> in addition, the
  forward-explicit translator yields \<open>A = [1]\<close> and \<open>rhs = [1.5]\<close>.
\<close>

theorem scenario_1d:
  assumes "getCurrentXWeight time_disc = 1" and "getWeightedOldX time_disc = [0.5]"
    and "getCurrentX time_disc [3.5 / 3] = [3.5 / 3]"
    and "getCurrentXWeight fwd_euler = 1" and "getWeightedOldX fwd_euler = [0.5]"
    and "getXOld fwd_euler = [1]"
  shows "getA (MatrixTranslatorGeneral time_disc) [[1]] [[2]] = Some [[3]] \<and>
         getRhs (MatrixTranslatorGeneral time_disc) [[1]] [[2]] [3] = Some [3.5] \<and>
         getResidual (MatrixTranslatorGeneral time_disc) [[1]] [[2]] [3] [3.5 / 3] = Some [0] \<and>
         getA (MatrixTranslatorForwardEuler fwd_euler) [[1]] [[2]] = Some [[1]] \<and>
         getRhs (MatrixTranslatorForwardEuler fwd_euler) [[1]] [[2]] [3] = Some [1.5]"
  using assms
  by (simp add: MatrixTranslatorGeneral_def MatrixTranslatorGeneral_getA_def
      MatrixTranslatorGeneral_getRhs_def MatrixTranslatorGeneral_getResidual_def
      MatrixTranslatorForwardEuler_def MatrixTranslatorForwardEuler_getA_def
      MatrixTranslatorForwardEuler_getRhs_def mat_add_def mat_scale_def mat_vec_def
      vec_add_def vec_sub_def vec_scale_def dot_def)

theorem scenario_1d_witness:
  "getCurrentXWeight implicit_1d = 1 \<and> getWeightedOldX implicit_1d = [0.5] \<and>
   getCurrentX implicit_1d [3.5 / 3] = [3.5 / 3] \<and>
   getCurrentXWeight forward_euler_1d = 1 \<and> getWeightedOldX forward_euler_1d = [0.5] \<and>
   getXOld forward_euler_1d = [1] \<and>
   getA (MatrixTranslatorGeneral implicit_1d) [[1]] [[2]] = Some [[3]] \<and>
   getRhs (MatrixTranslatorGeneral implicit_1d) [[1]] [[2]] [3] = Some [3.5] \<and>
   getResidual (MatrixTranslatorGeneral implicit_1d) [[1]] [[2]] [3] [3.5 / 3] = Some [0] \<and>
   getA (MatrixTranslatorForwardEuler forward_euler_1d) [[1]] [[2]] = Some [[1]] \<and>
   getRhs (MatrixTranslatorForwardEuler forward_euler_1d) [[1]] [[2]] [3] = Some [1.5]"
proof -
  have h: "getCurrentXWeight implicit_1d = 1" "getWeightedOldX implicit_1d = [0.5]"
    "getCurrentX implicit_1d [3.5 / 3] = [3.5 / 3]"
    by (simp_all add: implicit_1d_def)
  have h': "getCurrentXWeight forward_euler_1d = 1" "getWeightedOldX forward_euler_1d = [0.5]"
    "getXOld forward_euler_1d = [1]"
    by (simp_all add: forward_euler_1d_def)
  show ?thesis
    using h h' scenario_1d [OF h h'] by simp
qed

section \<open>The Jacobian passes through\<close>

text \<open>
  C7. For every matrix Jac, \<open>getJacobian(Jac)\<close> of the general translator and of the
  forward-explicit translator returns Jac itself, whatever strategy is bound.
\<close>

theorem getJacobian_identity:
  "getJacobian (MatrixTranslatorGeneral time_disc) Jac = Jac \<and>
   getJacobian (MatrixTranslatorForwardEuler fwd_euler) Jac = Jac"
  by (simp add: MatrixTranslatorGeneral_def MatrixTranslatorForwardEuler_def
      MatrixTranslatorGeneral_getJacobian_def MatrixTranslatorForwardEuler_getJacobian_def)

section \<open>What the adapters write\<close>

text \<open>
  C9. Only the assembly operations change what the adapter owns. The Newton adapter's
  \<open>getResidual\<close>, \<open>getJacobian\<close> and \<open>isLinear\<close> and the Picard adapter's \<open>getA\<close>,
  \<open>getRhs\<close> and \<open>isLinear\<close> leave the adapter as it was, so the stored M, K, b and Jac
  are unchanged. \<open>assembleResidualNewton\<close> and \<open>assembleMatricesPicard\<close> write nothing
  but M, K and b (Jac keeps its value); \<open>assembleJacobian\<close> writes nothing but Jac
  (M, K and b keep their values).
\<close>

theorem adapter_frame:
  "snd (Newton_getResidual nsys x) = nsys \<and>
   snd (Newton_getJacobian nsys) = nsys \<and>
   snd (Newton_isLinear nsys) = nsys \<and>
   snd (Picard_getA psys) = psys \<and>
   snd (Picard_getRhs psys) = psys \<and>
   snd (Picard_isLinear psys) = psys \<and>
   (\<exists>M' K' b'. Newton_assembleResidualNewton nsys x =
      nsys\<lparr> newton_M := M', newton_K := K', newton_b := b' \<rparr>) \<and>
   newton_Jac (Newton_assembleResidualNewton nsys x) = newton_Jac nsys \<and>
   (\<exists>M' K' b'. Picard_assembleMatricesPicard psys x =
      psys\<lparr> picard_M := M', picard_K := K', picard_b := b' \<rparr>) \<and>
   (\<exists>Jac'. Newton_assembleJacobian nsys x = nsys\<lparr> newton_Jac := Jac' \<rparr>) \<and>
   newton_M (Newton_assembleJacobian nsys x) = newton_M nsys \<and>
   newton_K (Newton_assembleJacobian nsys x) = newton_K nsys \<and>
   newton_b (Newton_assembleJacobian nsys x) = newton_b nsys"
proof -
  obtain M1 K1 b1 where a1:
    "assemble (newton_ode nsys) (getCurrentTime (newton_time_disc nsys))
       (getCurrentX (newton_time_disc nsys) x) (newton_M nsys) (newton_K nsys) (newton_b nsys)
     = (M1, K1, b1)"
    by (rule prod_cases3)
  obtain M2 K2 b2 where a2:
    "assemble (picard_ode psys) (getCurrentTime (picard_time_disc psys))
       (getCurrentX (picard_time_disc psys) x) (picard_M psys) (picard_K psys) (picard_b psys)
     = (M2, K2, b2)"
    by (rule prod_cases3)
  have n: "Newton_assembleResidualNewton nsys x =
      nsys\<lparr> newton_M := M1, newton_K := K1, newton_b := b1 \<rparr>"
    using a1 by (simp add: Newton_assembleResidualNewton_def)
  have p: "Picard_assembleMatricesPicard psys x =
      psys\<lparr> picard_M := M2, picard_K := K2, picard_b := b2 \<rparr>"
    using a2 by (simp add: Picard_assembleMatricesPicard_def)
  have getters: "snd (Newton_getResidual nsys x) = nsys \<and>
      snd (Newton_getJacobian nsys) = nsys \<and> snd (Newton_isLinear nsys) = nsys \<and>
      snd (Picard_getA psys) = psys \<and> snd (Picard_getRhs psys) = psys \<and>
      snd (Picard_isLinear psys) = psys"
    by (simp add: Newton_getResidual_def Newton_getJacobian_def Newton_isLinear_def
        Picard_getA_def Picard_getRhs_def Picard_isLinear_def)
  have "Newton_assembleJacobian nsys x =
      nsys\<lparr> newton_Jac := newton_Jac (Newton_assembleJacobian nsys x) \<rparr>"
    by (simp add: Newton_assembleJacobian_def)
  then have j: "\<exists>Jac'. Newton_assembleJacobian nsys x = nsys\<lparr> newton_Jac := Jac' \<rparr>"
    by (rule exI)
  have jf: "newton_M (Newton_assembleJacobian nsys x) = newton_M nsys \<and>
      newton_K (Newton_assembleJacobian nsys x) = newton_K nsys \<and>
      newton_b (Newton_assembleJacobian nsys x) = newton_b nsys"
    by (simp add: Newton_assembleJacobian_def)
  have nf: "newton_Jac (Newton_assembleResidualNewton nsys x) = newton_Jac nsys"
    using n by simp
  from n p getters j jf nf show ?thesis
    by blast
qed

section \<open>The Picard adapter and its translator\<close>

text \<open>
  C10. The Picard adapter never calls its bound matrix translator: whatever translator
  \<open>mt\<close> is bound, \<open>getA()\<close> is the strategy's \<open>getA(M, K)\<close> and \<open>getRhs()\<close> is the
  strategy's \<open>getRhs(M, K, b)\<close> on the stored M, K, b. Two Picard adapters that differ
  only in the bound translator therefore return the same \<open>getA()\<close> and \<open>getRhs()\<close>.
\<close>

theorem Picard_ignores_translator:
  "fst (Picard_getA (psys\<lparr> picard_mat_trans := mt \<rparr>)) =
     timeDisc_getA (picard_time_disc psys) (picard_M psys) (picard_K psys) \<and>
   fst (Picard_getRhs (psys\<lparr> picard_mat_trans := mt \<rparr>)) =
     timeDisc_getRhs (picard_time_disc psys) (picard_M psys) (picard_K psys) (picard_b psys) \<and>
   fst (Picard_getA (psys\<lparr> picard_mat_trans := mt \<rparr>)) =
     fst (Picard_getA (psys\<lparr> picard_mat_trans := mt' \<rparr>)) \<and>
   fst (Picard_getRhs (psys\<lparr> picard_mat_trans := mt \<rparr>)) =
     fst (Picard_getRhs (psys\<lparr> picard_mat_trans := mt' \<rparr>))"
  by (simp add: Picard_getA_def Picard_getRhs_def)

end
